theory Spec2Isabelle
  imports Complex_Main "HOL-Library.AList"
begin

section \<open>Data model (app.js)\<close>

text \<open>
  An attendance record is the object \<^verbatim>\<open>{ status, count }\<close>. The status strings
  \<^verbatim>\<open>'absent'\<close>, \<^verbatim>\<open>'present'\<close>, \<^verbatim>\<open>'late'\<close> are the constructors of \<open>status\<close>;
  \<open>count\<close> is a JavaScript number holding an integer, so it is an \<open>int\<close> and
  nothing in the type keeps it from being negative.
\<close>

datatype status = Absent | Present | Late

record attendance_record =
  status :: status
  count :: int

text \<open>The interaction mode held in \<^verbatim>\<open>state.mode\<close>: \<^verbatim>\<open>'present' | 'late' | 'undo'\<close>.\<close>

datatype mode = ModePresent | ModeLate | ModeUndo

text \<open>
  A session object. \<open>start_time\<close> is the ISO string written by
  \<^verbatim>\<open>new Date().toISOString()\<close> and read back by \<^verbatim>\<open>new Date(s).getTime()\<close>; the
  model keeps the millisecond timestamp, \<open>None\<close> for \<^verbatim>\<open>null\<close>. \<open>records\<close> is the
  object keyed by \<^verbatim>\<open>String(studentId)\<close>, kept as an association list in
  insertion order.
\<close>

record session =
  date :: string
  start_time :: "int option"
  active :: bool
  processed :: bool
  records :: "(string \<times> attendance_record) list"

record student =
  student_id :: string
  student_name :: string

record dataset =
  students :: "student list"
  sessions :: "session list"

record course =
  course_id :: int
  tab_label :: string
  course_num :: string
  file_id :: string
  course_term :: string
  sis_section_id :: string

definition TIMER_MINUTES :: int where
  "TIMER_MINUTES = 3"

definition SAVE_DEBOUNCE_MS :: nat where
  "SAVE_DEBOUNCE_MS = 500"

section \<open>Application state and the browser's timers\<close>

text \<open>
  A timer callback is a closure. \<open>SaveCb g c d\<close> is the debounced callback armed by
  \<^verbatim>\<open>scheduleSave\<close>, with the captured \<^verbatim>\<open>generation\<close>, \<^verbatim>\<open>course\<close> and
  \<^verbatim>\<open>courseData\<close> (a reference to the live dataset object, of type \<open>'d\<close>);
  \<open>RetryCb g c d\<close> is the inner callback armed in the \<^verbatim>\<open>catch\<close> block, which has
  the same variables in scope but never reads \<^verbatim>\<open>generation\<close>.
\<close>

datatype 'd callback = SaveCb nat course 'd | RetryCb nat course 'd

text \<open>
  One call of \<^verbatim>\<open>saveCourseData\<close> that has been started: the captured generation,
  whether it is the retry, and its two arguments.
\<close>

record 'd save_call =
  call_generation :: nat
  call_is_retry :: bool
  call_course :: course
  call_data :: 'd

text \<open>
  The fields \<open>mode\<close>, \<open>saveTimeout\<close> and \<open>saveGeneration\<close> are those of the global
  \<^verbatim>\<open>state\<close> object. The rest is the environment the code runs in: the browser's
  monotonic timer clock (milliseconds), its table of pending timers (handle,
  deadline, callback), the handle that the next \<^verbatim>\<open>setTimeout\<close> returns, the
  \<^verbatim>\<open>saveCourseData\<close> calls that are awaiting their result (keyed by the handle of
  the timer that started them), and two histories: every \<^verbatim>\<open>saveCourseData\<close> call
  started, and every one that returned without throwing.
\<close>

record 'd app_state =
  mode :: mode
  saveTimeout :: "nat option"
  saveGeneration :: nat
  clock :: nat
  nextHandle :: nat
  timers :: "(nat \<times> nat \<times> 'd callback) list"
  running :: "(nat \<times> 'd save_call) list"
  started :: "'d save_call list"
  saved :: "'d save_call list"

definition setTimeout :: "'d callback \<Rightarrow> nat \<Rightarrow> 'd app_state \<Rightarrow> nat \<times> 'd app_state" where
  "setTimeout cb ms s =
     (nextHandle s,
      s\<lparr>timers := timers s @ [(nextHandle s, clock s + ms, cb)],
        nextHandle := nextHandle s + 1\<rparr>)"

definition clearTimeout :: "nat \<Rightarrow> 'd app_state \<Rightarrow> 'd app_state" where
  "clearTimeout h s = s\<lparr>timers := filter (\<lambda>t. fst t \<noteq> h) (timers s)\<rparr>"

text \<open>
  \<^verbatim>\<open>scheduleSave(course, courseData)\<close>. The test \<^verbatim>\<open>if (state.saveTimeout)\<close> is
  JavaScript truthiness of a timer handle: \<^verbatim>\<open>null\<close> and \<^verbatim>\<open>0\<close> are falsy.
\<close>

definition scheduleSave :: "course \<Rightarrow> 'd \<Rightarrow> 'd app_state \<Rightarrow> 'd app_state" where
  "scheduleSave c d s =
     (let s1 = (case saveTimeout s of
                  None \<Rightarrow> s
                | Some h \<Rightarrow> if h \<noteq> 0 then clearTimeout h s else s);
          s2 = s1\<lparr>saveGeneration := saveGeneration s1 + 1\<rparr>;
          generation = saveGeneration s2;
          (h', s3) = setTimeout (SaveCb generation c d) SAVE_DEBOUNCE_MS s2
      in s3\<lparr>saveTimeout := Some h'\<rparr>)"

section \<open>Attendance state machine (handleCellTap)\<close>

definition getOrCreateRecord :: "session \<Rightarrow> string \<Rightarrow> session \<times> attendance_record" where
  "getOrCreateRecord sess key =
     (case map_of (records sess) key of
        None \<Rightarrow>
          (sess\<lparr>records := AList.update key \<lparr>status = Absent, count = 0\<rparr> (records sess)\<rparr>,
           \<lparr>status = Absent, count = 0\<rparr>)
      | Some r \<Rightarrow> (sess, r))"

text \<open>
  The 3-minute rule of \<^verbatim>\<open>handleCellTap\<close>:
  \<^verbatim>\<open>elapsed = (Date.now() - new Date(session.start_time).getTime()) / 1000\<close>, a
  division of numbers, compared with \<^verbatim>\<open>TIMER_MINUTES * 60\<close>.
\<close>

definition elapsedSeconds :: "int \<Rightarrow> int \<Rightarrow> real" where
  "elapsedSeconds now st = real_of_int (now - st) / 1000"

definition effectiveMode :: "mode \<Rightarrow> int option \<Rightarrow> int \<Rightarrow> attendance_record \<Rightarrow> mode" where
  "effectiveMode m st now r =
     (case st of
        None \<Rightarrow> m
      | Some t \<Rightarrow>
          if m = ModePresent \<and> status r = Absent
          then (if elapsedSeconds now t > real_of_int (TIMER_MINUTES * 60) then ModeLate else m)
          else m)"

text \<open>The \<^verbatim>\<open>switch (effectiveMode)\<close> statement, acting on the record.\<close>

fun switchMode :: "mode \<Rightarrow> attendance_record \<Rightarrow> attendance_record" where
  "switchMode ModePresent r =
     (if status r = Absent then r\<lparr>status := Present, count := 1\<rparr>
      else r\<lparr>count := count r + 1\<rparr>)"
| "switchMode ModeLate r =
     (if status r = Absent then r\<lparr>status := Late, count := 1\<rparr>
      else r\<lparr>status := Late\<rparr>)"
| "switchMode ModeUndo r =
     (if count r > 1 then r\<lparr>count := count r - 1\<rparr>
      else if count r = 1 then r\<lparr>count := 0, status := Absent\<rparr>
      else r)"

text \<open>
  \<^verbatim>\<open>handleCellTap(courseData, course, session, studentId)\<close>. The clock is read
  twice: \<open>now1\<close> by \<^verbatim>\<open>new Date()\<close> when the start time is set, \<open>now2\<close> by
  \<^verbatim>\<open>Date.now()\<close> in the 3-minute rule. The record is an object shared with
  \<^verbatim>\<open>session.records\<close>, so its new value is written back under its key. The three
  display updates touch the page only. The result is the session and the global state
  after the trailing \<^verbatim>\<open>scheduleSave\<close>.
\<close>

definition handleCellTap ::
  "'d \<Rightarrow> course \<Rightarrow> session \<Rightarrow> string \<Rightarrow> int \<Rightarrow> int \<Rightarrow> 'd app_state \<Rightarrow> session \<times> 'd app_state" where
  "handleCellTap courseData c sess studentId now1 now2 s =
     (let (sess1, r) = getOrCreateRecord sess studentId;
          sess2 = (case start_time sess1 of
                     None \<Rightarrow> sess1\<lparr>start_time := Some now1\<rparr>
                   | Some _ \<Rightarrow> sess1);
          eff = effectiveMode (mode s) (start_time sess2) now2 r;
          r' = switchMode eff r;
          sess3 = sess2\<lparr>records := AList.update studentId r' (records sess2)\<rparr>
      in (sess3, scheduleSave c courseData s))"

text \<open>
  A tap as the operator performs it: the mode toggle sets \<^verbatim>\<open>state.mode\<close>
  (\<^verbatim>\<open>initModeToggle\<close>), then a cell of today's session is tapped.
\<close>

record tap =
  tap_mode :: mode
  tap_student :: string
  tap_now1 :: int
  tap_now2 :: int

fun tapAll :: "'d \<Rightarrow> course \<Rightarrow> tap list \<Rightarrow> session \<times> 'd app_state \<Rightarrow> session \<times> 'd app_state" where
  "tapAll courseData c [] ss = ss"
| "tapAll courseData c (t # ts) (sess, s) =
     tapAll courseData c ts
       (handleCellTap courseData c sess (tap_student t) (tap_now1 t) (tap_now2 t)
          (s\<lparr>mode := tap_mode t\<rparr>))"

text \<open>The invariant of the data model: \<open>status = absent \<longleftrightarrow> count = 0\<close>, and no negative count.\<close>

definition record_ok :: "attendance_record \<Rightarrow> bool" where
  "record_ok r = ((status r = Absent) = (count r = 0) \<and> 0 \<le> count r)"

text \<open>
  The objects the page starts from: the initial \<^verbatim>\<open>state\<close> (with the browser's
  timer table empty; handles are positive integers), the first entry of
  \<^verbatim>\<open>COURSES\<close>, and the session that the click handler of \<^verbatim>\<open>renderGrid\<close> creates
  for today on the first tap.
\<close>

definition initialState :: "'d app_state" where
  "initialState =
     \<lparr>mode = ModePresent, saveTimeout = None, saveGeneration = 0, clock = 0, nextHandle = 1,
      timers = [], running = [], started = [], saved = []\<rparr>"

definition course101H :: course where
  "course101H =
     \<lparr>course_id = 104159, tab_label = ''101H'', course_num = ''101'', file_id = ''101H'',
      course_term = ''SPR26'', sis_section_id = ''ECON101H.001.SP26''\<rparr>"

definition todaySession :: "string \<Rightarrow> session" where
  "todaySession today =
     \<lparr>date = today, start_time = None, active = True, processed = False, records = []\<rparr>"

section \<open>Token lifecycle (dropbox-auth.js)\<close>

text \<open>
  The credential store. The first three fields are the \<^verbatim>\<open>localStorage\<close> entries
  under \<^verbatim>\<open>TOKEN_KEY\<close>, \<^verbatim>\<open>REFRESH_KEY\<close> and \<^verbatim>\<open>EXPIRY_KEY\<close>, the fourth the
  \<^verbatim>\<open>sessionStorage\<close> entry under \<^verbatim>\<open>VERIFIER_KEY\<close>; \<open>None\<close> is what
  \<^verbatim>\<open>getItem\<close> returns as \<^verbatim>\<open>null\<close>. The expiry is written as
  \<^verbatim>\<open>String(n)\<close> for an integer \<open>n\<close> and read with \<^verbatim>\<open>parseInt\<close>; the model keeps
  \<open>n\<close>. \<open>dbx\<close> is \<^verbatim>\<open>this.dbx\<close>, a client object identified by the access token
  it was built with. \<open>requests\<close> is the history of calls made to the provider's
  token endpoint.
\<close>

datatype auth_request =
    TokenFromCode string string
  | RefreshAccessToken "string option"

record auth_state =
  dbx_access_token :: "string option"
  dbx_refresh_token :: "string option"
  dbx_token_expiry :: "int option"
  dbx_code_verifier :: "string option"
  dbx :: "string option"
  requests :: "auth_request list"

datatype auth_error = MissingVerifier | TokenRequestFailed | RefreshFailed

text \<open>The \<^verbatim>\<open>result\<close> of a successful code exchange.\<close>

record token_result =
  access_token :: string
  refresh_token :: "string option"
  expires_in :: "int option"

text \<open>JavaScript truthiness of a stored string: \<^verbatim>\<open>null\<close> and \<^verbatim>\<open>''\<close> are falsy.\<close>

definition truthy :: "string option \<Rightarrow> bool" where
  "truthy v = (case v of None \<Rightarrow> False | Some t \<Rightarrow> t \<noteq> [])"

definition isAuthenticated :: "int \<Rightarrow> auth_state \<Rightarrow> bool" where
  "isAuthenticated now a =
     (if \<not> truthy (dbx_access_token a) then False
      else (case dbx_token_expiry a of
              Some expiry \<Rightarrow> if now > expiry - 300000 then False else True
            | None \<Rightarrow> True))"

definition hasRefreshToken :: "auth_state \<Rightarrow> bool" where
  "hasRefreshToken a = truthy (dbx_refresh_token a)"

text \<open>
  \<^verbatim>\<open>_handleCallback(code)\<close>. \<open>exchange\<close> is what awaiting
  \<^verbatim>\<open>getAccessTokenFromCode\<close> gives: \<open>None\<close> when the promise rejects, the result
  otherwise; \<open>now\<close> is \<^verbatim>\<open>Date.now()\<close> read after it. A thrown error leaves the
  function at once, with the state as it is at that point.
\<close>

definition handleCallback ::
  "string \<Rightarrow> token_result option \<Rightarrow> int \<Rightarrow> auth_state \<Rightarrow> (auth_error + unit) \<times> auth_state" where
  "handleCallback code exchange now a =
     (if \<not> truthy (dbx_code_verifier a) then (Inl MissingVerifier, a)
      else
        let a1 = a\<lparr>requests := requests a @ [TokenFromCode code (the (dbx_code_verifier a))]\<rparr>
        in (case exchange of
              None \<Rightarrow> (Inl TokenRequestFailed, a1)
            | Some result \<Rightarrow>
                let a2 = a1\<lparr>dbx_access_token := Some (access_token result)\<rparr>;
                    a3 = (if truthy (refresh_token result)
                          then a2\<lparr>dbx_refresh_token := refresh_token result\<rparr> else a2);
                    expiresIn = (case expires_in result of
                                   None \<Rightarrow> 14400
                                 | Some n \<Rightarrow> if n = 0 then 14400 else n);
                    a4 = a3\<lparr>dbx_token_expiry := Some (now + expiresIn * 1000)\<rparr>;
                    a5 = a4\<lparr>dbx_code_verifier := None\<rparr>
                in (Inr (), a5\<lparr>dbx := Some (access_token result)\<rparr>)))"

text \<open>
  \<^verbatim>\<open>_refreshToken()\<close>. \<open>refresh\<close> is what awaiting \<^verbatim>\<open>refreshAccessToken\<close>
  followed by \<^verbatim>\<open>getAccessToken()\<close> gives: \<open>None\<close> when the promise rejects, the
  new access token otherwise.
\<close>

definition refreshToken ::
  "string option \<Rightarrow> int \<Rightarrow> auth_state \<Rightarrow> (auth_error + unit) \<times> auth_state" where
  "refreshToken refresh now a =
     (let a1 = a\<lparr>requests := requests a @ [RefreshAccessToken (dbx_refresh_token a)]\<rparr>
      in (case refresh of
            None \<Rightarrow> (Inl RefreshFailed, a1)
          | Some newToken \<Rightarrow>
              (Inr (),
               a1\<lparr>dbx_access_token := Some newToken,
                  dbx_token_expiry := Some (now + 14400 * 1000),
                  dbx := Some newToken\<rparr>)))"

text \<open>
  \<^verbatim>\<open>ensureFreshToken()\<close>: \<open>now\<close> is the clock at the \<^verbatim>\<open>isAuthenticated()\<close>
  test, \<open>now'\<close> the clock when the refresh has answered.
\<close>

definition ensureFreshToken ::
  "int \<Rightarrow> string option \<Rightarrow> int \<Rightarrow> auth_state \<Rightarrow> (auth_error + unit) \<times> auth_state" where
  "ensureFreshToken now refresh now' a =
     (if \<not> isAuthenticated now a \<and> hasRefreshToken a then refreshToken refresh now' a
      else (Inr (), a))"

text \<open>
  Two credential stores: one that holds an access token (and nothing else but,
  possibly, its expiry), and one left by \<^verbatim>\<open>startAuth\<close>, holding only the PKCE
  verifier.
\<close>

definition storedToken :: "string \<Rightarrow> int option \<Rightarrow> auth_state" where
  "storedToken tok expiry =
     \<lparr>dbx_access_token = Some tok, dbx_refresh_token = None, dbx_token_expiry = expiry,
      dbx_code_verifier = None, dbx = Some tok, requests = []\<rparr>"

definition awaitingCallback :: "string \<Rightarrow> auth_state" where
  "awaitingCallback verifier =
     \<lparr>dbx_access_token = None, dbx_refresh_token = None, dbx_token_expiry = None,
      dbx_code_verifier = Some verifier, dbx = None, requests = []\<rparr>"

section \<open>Saving a dataset (saveCourseData)\<close>

definition getParticipationPath :: "course \<Rightarrow> string" where
  "getParticipationPath c =
     ''/Teaching/'' @ course_num c @ ''/Data/'' @ file_id c @ course_term c @ ''participation.json''"

text \<open>
  The filter of \<^verbatim>\<open>saveCourseData\<close>:
  \<^verbatim>\<open>Object.values(session.records || {}).some(r => r.status !== 'absent' || r.count > 0)\<close>.
\<close>

definition cleanEmptySessions :: "session list \<Rightarrow> session list" where
  "cleanEmptySessions ss =
     filter (\<lambda>session. list_ex (\<lambda>r. status r \<noteq> Absent \<or> count r > 0) (map snd (records session))) ss"

text \<open>
  What \<^verbatim>\<open>filesUpload\<close> is called with: the path, the serialised dataset, and the
  access token of the client it is called on.
\<close>

record upload_request =
  upload_path :: string
  upload_contents :: dataset
  upload_token :: string

datatype save_error = AuthFailed auth_error | UploadFailed

text \<open>
  The outcome of one call of \<^verbatim>\<open>saveCourseData\<close>: how it returned, the dataset
  object it was given as it is afterwards, the credential store afterwards, and the
  upload it issued, if it got that far.
\<close>

record save_result =
  save_outcome :: "save_error + unit"
  save_data :: dataset
  save_auth :: auth_state
  save_upload :: "upload_request option"

text \<open>
  \<^verbatim>\<open>saveCourseData(course, data)\<close>. \<open>state_dbx\<close> is the access token of the client
  object held in \<^verbatim>\<open>state.dbx\<close>, which \<^verbatim>\<open>initApp\<close> sets once from
  \<^verbatim>\<open>state.auth.getClient()\<close>; \<open>upload_ok\<close> tells whether the \<^verbatim>\<open>filesUpload\<close>
  promise resolves.
\<close>

definition saveCourseData ::
  "int \<Rightarrow> string option \<Rightarrow> int \<Rightarrow> bool \<Rightarrow> string \<Rightarrow> course \<Rightarrow> dataset \<Rightarrow> auth_state \<Rightarrow> save_result" where
  "saveCourseData now refresh now' upload_ok state_dbx c data a =
     (case ensureFreshToken now refresh now' a of
        (Inl e, a') \<Rightarrow>
          \<lparr>save_outcome = Inl (AuthFailed e), save_data = data, save_auth = a', save_upload = None\<rparr>
      | (Inr _, a') \<Rightarrow>
          let data' = data\<lparr>sessions := cleanEmptySessions (sessions data)\<rparr>;
              req = \<lparr>upload_path = getParticipationPath c, upload_contents = data',
                     upload_token = state_dbx\<rparr>
          in \<lparr>save_outcome = (if upload_ok then Inr () else Inl UploadFailed),
              save_data = data', save_auth = a', save_upload = Some req\<rparr>)"

section \<open>The debounced save as an event system (scheduleSave)\<close>

text \<open>
  The callbacks of \<^verbatim>\<open>scheduleSave\<close> run when the browser fires a timer and when an
  awaited \<^verbatim>\<open>saveCourseData\<close> call returns. \<open>startSave\<close> is the point where a
  callback calls \<^verbatim>\<open>saveCourseData\<close>; the call then runs until \<open>saveReturned\<close>, and
  other events may come in between.
\<close>

definition startSave :: "nat \<Rightarrow> 'd save_call \<Rightarrow> 'd app_state \<Rightarrow> 'd app_state" where
  "startSave h call s = s\<lparr>running := running s @ [(h, call)], started := started s @ [call]\<rparr>"

text \<open>
  The body of a timer callback up to its first \<^verbatim>\<open>await\<close>. The debounced callback
  returns at once when \<^verbatim>\<open>generation !== state.saveGeneration\<close>; the retry callback
  has no such test.
\<close>

fun runCallback :: "nat \<Rightarrow> 'd callback \<Rightarrow> 'd app_state \<Rightarrow> 'd app_state" where
  "runCallback h (SaveCb generation c d) s =
     (if generation \<noteq> saveGeneration s then s
      else startSave h
             \<lparr>call_generation = generation, call_is_retry = False, call_course = c, call_data = d\<rparr> s)"
| "runCallback h (RetryCb generation c d) s =
     startSave h
       \<lparr>call_generation = generation, call_is_retry = True, call_course = c, call_data = d\<rparr> s"

text \<open>
  The rest of a callback once \<^verbatim>\<open>saveCourseData\<close> has returned (\<open>ok\<close>) or thrown:
  the first attempt arms the retry timer in its \<^verbatim>\<open>catch\<close> block, the retry only
  reports.
\<close>

definition saveReturned :: "bool \<Rightarrow> 'd save_call \<Rightarrow> 'd app_state \<Rightarrow> 'd app_state" where
  "saveReturned ok call s =
     (if ok then s\<lparr>saved := saved s @ [call]\<rparr>
      else if call_is_retry call then s
      else snd (setTimeout
                  (RetryCb (call_generation call) (call_course call) (call_data call)) 2000 s))"

text \<open>
  What can happen to the page: time passes, \<^verbatim>\<open>scheduleSave\<close> is called, a pending
  timer whose deadline has come fires, a running \<^verbatim>\<open>saveCourseData\<close> call returns.
  \<open>step\<close> is \<open>None\<close> for an event that cannot happen in the state (a timer that is not
  pending or not yet due, a call that is not running). A timer that fires leaves the
  browser's table before its callback runs.
\<close>

datatype 'd event =
    Tick nat
  | ScheduleSave course 'd
  | TimerFires nat
  | SaveReturns nat bool

fun step :: "'d event \<Rightarrow> 'd app_state \<Rightarrow> 'd app_state option" where
  "step (Tick n) s = Some (s\<lparr>clock := clock s + n\<rparr>)"
| "step (ScheduleSave c d) s = Some (scheduleSave c d s)"
| "step (TimerFires h) s =
     (case map_of (timers s) h of
        None \<Rightarrow> None
      | Some (deadline, cb) \<Rightarrow>
          if clock s < deadline then None
          else Some (runCallback h cb (clearTimeout h s)))"
| "step (SaveReturns h ok) s =
     (case map_of (running s) h of
        None \<Rightarrow> None
      | Some call \<Rightarrow>
          Some (saveReturned ok call (s\<lparr>running := filter (\<lambda>p. fst p \<noteq> h) (running s)\<rparr>)))"

fun run :: "'d event list \<Rightarrow> 'd app_state \<Rightarrow> 'd app_state option" where
  "run [] s = Some s"
| "run (e # es) s = (case step e s of None \<Rightarrow> None | Some s' \<Rightarrow> run es s')"











text \<open>
  The specification's wording of an empty session: every record is
  \<open>{status: absent, count: 0}\<close>.
\<close>

definition every_record_absent_zero :: "session \<Rightarrow> bool" where
  "every_record_absent_zero sess =
     list_all (\<lambda>r. status r = Absent \<and> count r = 0) (map snd (records sess))"

section \<open>Attendance state machine: proofs\<close>

lemma switchMode_ok: "record_ok r \<Longrightarrow> record_ok (switchMode m r)"
  by (cases m) (auto simp: record_ok_def)

lemma set_update_cases:
  "(k', v') \<in> set (AList.update k v al) \<Longrightarrow> (k', v') \<in> set al \<or> (k' = k \<and> v' = v)"
  by (induction al) (auto split: if_splits)

lemma getOrCreateRecord_ok:
  assumes "\<forall>r \<in> snd ` set (records sess). record_ok r"
  shows "record_ok (snd (getOrCreateRecord sess k)) \<and>
         (\<forall>r \<in> snd ` set (records (fst (getOrCreateRecord sess k))). record_ok r)"
proof
  show "record_ok (snd (getOrCreateRecord sess k))"
  proof (cases "map_of (records sess) k")
    case None
    then show ?thesis by (simp add: getOrCreateRecord_def record_ok_def)
  next
    case (Some r)
    then have "(k, r) \<in> set (records sess)" by (rule map_of_SomeD)
    then have "record_ok r" using assms by force
    with Some show ?thesis by (simp add: getOrCreateRecord_def)
  qed
  show "\<forall>r \<in> snd ` set (records (fst (getOrCreateRecord sess k))). record_ok r"
    using assms
    by (auto simp: getOrCreateRecord_def record_ok_def split: option.splits dest!: set_update_cases)
qed

lemma handleCellTap_ok:
  assumes "\<forall>r \<in> snd ` set (records sess). record_ok r"
  shows "\<forall>r \<in> snd ` set (records (fst (handleCellTap d c sess k n1 n2 s))). record_ok r"
proof -
  obtain sess1 r where g: "getOrCreateRecord sess k = (sess1, r)" by force
  from getOrCreateRecord_ok[OF assms, of k] g
  have r: "record_ok r" and s1: "\<forall>r \<in> snd ` set (records sess1). record_ok r" by simp_all
  show ?thesis
    using r s1 g
    by (auto simp: handleCellTap_def Let_def switchMode_ok split: option.splits dest!: set_update_cases)
qed

lemma tapAll_ok:
  "\<forall>r \<in> snd ` set (records (fst ss)). record_ok r \<Longrightarrow>
   \<forall>r \<in> snd ` set (records (fst (tapAll d c taps ss))). record_ok r"
proof (induction taps arbitrary: ss)
  case Nil
  then show ?case by simp
next
  case (Cons t ts)
  obtain sess s where ss: "ss = (sess, s)" by force
  have "\<forall>r \<in> snd ` set (records sess). record_ok r"
    using Cons.prems ss by simp
  then have "\<forall>r \<in> snd ` set (records (fst (handleCellTap d c sess (tap_student t) (tap_now1 t)
          (tap_now2 t) (s\<lparr>mode := tap_mode t\<rparr>)))). record_ok r"
    by (rule handleCellTap_ok)
  then show ?case unfolding ss tapAll.simps
    by (rule Cons.IH)
qed

lemmas tap_eval =
  todaySession_def handleCellTap_def getOrCreateRecord_def effectiveMode_def
  elapsedSeconds_def TIMER_MINUTES_def Let_def

text \<open>
  C1. Whatever taps are performed (any modes, students and clock readings, the
  forced-late path included), on a session whose records are created by the handler
  or already satisfy the invariant, every record of the session afterwards has
  \<open>status = absent \<longleftrightarrow> count = 0\<close> and a count that is not negative.
\<close>

theorem tap_invariant:
  assumes "\<forall>r \<in> snd ` set (records sess). (status r = Absent \<longleftrightarrow> count r = 0) \<and> 0 \<le> count r"
  shows "\<forall>r \<in> snd ` set (records (fst (tapAll d c taps (sess, s)))).
           (status r = Absent \<longleftrightarrow> count r = 0) \<and> 0 \<le> count r"
  using tapAll_ok[of "(sess, s)" d c taps] assms
  unfolding record_ok_def by simp

theorem tap_invariant_witness:
  "records (todaySession ''2026-01-15'') = [] \<and>
   records (fst (tapAll () course101H
      [\<lparr>tap_mode = ModePresent, tap_student = ''7'', tap_now1 = 1000, tap_now2 = 1000\<rparr>,
       \<lparr>tap_mode = ModePresent, tap_student = ''8'', tap_now1 = 182000, tap_now2 = 182000\<rparr>,
       \<lparr>tap_mode = ModeUndo, tap_student = ''7'', tap_now1 = 183000, tap_now2 = 183000\<rparr>]
      (todaySession ''2026-01-15'', initialState)))
     = [(''7'', \<lparr>status = Absent, count = 0\<rparr>), (''8'', \<lparr>status = Late, count = 1\<rparr>)] \<and>
   list_all (\<lambda>r. (status r = Absent \<longleftrightarrow> count r = 0) \<and> 0 \<le> count r)
     (map snd (records (fst (tapAll () course101H
      [\<lparr>tap_mode = ModePresent, tap_student = ''7'', tap_now1 = 1000, tap_now2 = 1000\<rparr>,
       \<lparr>tap_mode = ModePresent, tap_student = ''8'', tap_now1 = 182000, tap_now2 = 182000\<rparr>,
       \<lparr>tap_mode = ModeUndo, tap_student = ''7'', tap_now1 = 183000, tap_now2 = 183000\<rparr>]
      (todaySession ''2026-01-15'', initialState)))))"
proof -
  have n: "records (todaySession ''2026-01-15'') = []"
    by (simp add: todaySession_def)
  have h: "\<forall>r \<in> snd ` set (records (todaySession ''2026-01-15'')).
      (status r = Absent \<longleftrightarrow> count r = 0) \<and> 0 \<le> count r"
    by (simp add: n)
  have e: "records (fst (tapAll () course101H
      [\<lparr>tap_mode = ModePresent, tap_student = ''7'', tap_now1 = 1000, tap_now2 = 1000\<rparr>,
       \<lparr>tap_mode = ModePresent, tap_student = ''8'', tap_now1 = 182000, tap_now2 = 182000\<rparr>,
       \<lparr>tap_mode = ModeUndo, tap_student = ''7'', tap_now1 = 183000, tap_now2 = 183000\<rparr>]
      (todaySession ''2026-01-15'', initialState)))
     = [(''7'', \<lparr>status = Absent, count = 0\<rparr>), (''8'', \<lparr>status = Late, count = 1\<rparr>)]"
    by (simp add: tap_eval)
  from n e tap_invariant[OF h, of "()" course101H _ initialState] show ?thesis
    unfolding list_all_iff set_map by blast
qed

text \<open>
  C2 (the sequence \<open>present, present, undo\<close> as the claim has it). On a fresh session,
  within the grace period, two present taps and one undo leave the student at
  \<open>{present, 1}\<close>, not at \<open>{present, 2}\<close>.
\<close>

theorem sequence_counterexample:
  "map_of (records (fst (tapAll () course101H
      [\<lparr>tap_mode = ModePresent, tap_student = ''7'', tap_now1 = 1000, tap_now2 = 1000\<rparr>,
       \<lparr>tap_mode = ModePresent, tap_student = ''7'', tap_now1 = 2000, tap_now2 = 2000\<rparr>,
       \<lparr>tap_mode = ModeUndo, tap_student = ''7'', tap_now1 = 3000, tap_now2 = 3000\<rparr>]
      (todaySession ''2026-01-15'', initialState)))) ''7''
    = Some \<lparr>status = Present, count = 1\<rparr> \<and>
   switchMode ModeUndo (switchMode ModePresent (switchMode ModePresent \<lparr>status = Absent, count = 0\<rparr>))
    \<noteq> \<lparr>status = Present, count = 2\<rparr>"
  by (simp add: tap_eval)

text \<open>
  C2, amended. The \<^verbatim>\<open>switch\<close> of the handler is the transition table: present on an
  absent record gives \<open>{present, 1}\<close> and otherwise adds one to the count and keeps
  the status; late on an absent record gives \<open>{late, 1}\<close> and otherwise sets the
  status to late and keeps the count; undo subtracts one when the count exceeds 1,
  gives \<open>{absent, 0}\<close> at count 1 and changes nothing at count 0. On an absent record,
  \<open>present, present, present\<close> gives \<open>{present, 3}\<close>, \<open>present, present, undo\<close> gives
  \<open>{present, 1}\<close>, and \<open>present, undo, undo\<close> gives \<open>{absent, 0}\<close>.
\<close>

theorem transition_table:
  "(status r = Absent \<longrightarrow> switchMode ModePresent r = \<lparr>status = Present, count = 1\<rparr>) \<and>
   (status r \<noteq> Absent \<longrightarrow> switchMode ModePresent r = \<lparr>status = status r, count = count r + 1\<rparr>) \<and>
   (status r = Absent \<longrightarrow> switchMode ModeLate r = \<lparr>status = Late, count = 1\<rparr>) \<and>
   (status r \<noteq> Absent \<longrightarrow> switchMode ModeLate r = \<lparr>status = Late, count = count r\<rparr>) \<and>
   (count r > 1 \<longrightarrow> switchMode ModeUndo r = \<lparr>status = status r, count = count r - 1\<rparr>) \<and>
   (count r = 1 \<longrightarrow> switchMode ModeUndo r = \<lparr>status = Absent, count = 0\<rparr>) \<and>
   (count r = 0 \<longrightarrow> switchMode ModeUndo r = r) \<and>
   (status r = Absent \<longrightarrow>
      switchMode ModePresent (switchMode ModePresent (switchMode ModePresent r))
        = \<lparr>status = Present, count = 3\<rparr> \<and>
      switchMode ModeUndo (switchMode ModePresent (switchMode ModePresent r))
        = \<lparr>status = Present, count = 1\<rparr> \<and>
      switchMode ModeUndo (switchMode ModeUndo (switchMode ModePresent r))
        = \<lparr>status = Absent, count = 0\<rparr>)"
  by (cases r) simp

theorem transition_table_witness:
  "status \<lparr>status = Absent, count = 0\<rparr> = Absent \<and>
   count \<lparr>status = Absent, count = 0\<rparr> = 0 \<and>
   switchMode ModePresent \<lparr>status = Absent, count = 0\<rparr> = \<lparr>status = Present, count = 1\<rparr> \<and>
   switchMode ModeLate \<lparr>status = Absent, count = 0\<rparr> = \<lparr>status = Late, count = 1\<rparr> \<and>
   switchMode ModeUndo \<lparr>status = Absent, count = 0\<rparr> = \<lparr>status = Absent, count = 0\<rparr> \<and>
   switchMode ModeUndo (switchMode ModePresent (switchMode ModePresent \<lparr>status = Absent, count = 0\<rparr>))
     = \<lparr>status = Present, count = 1\<rparr> \<and>
   status \<lparr>status = Present, count = 2\<rparr> \<noteq> Absent \<and>
   count \<lparr>status = Present, count = 2\<rparr> > 1 \<and>
   switchMode ModePresent \<lparr>status = Present, count = 2\<rparr> = \<lparr>status = Present, count = 3\<rparr> \<and>
   switchMode ModeLate \<lparr>status = Present, count = 2\<rparr> = \<lparr>status = Late, count = 2\<rparr> \<and>
   switchMode ModeUndo \<lparr>status = Present, count = 2\<rparr> = \<lparr>status = Present, count = 1\<rparr> \<and>
   count \<lparr>status = Late, count = 1\<rparr> = 1 \<and>
   switchMode ModeUndo \<lparr>status = Late, count = 1\<rparr> = \<lparr>status = Absent, count = 0\<rparr>"
  using transition_table[of "\<lparr>status = Absent, count = 0\<rparr>"]
    transition_table[of "\<lparr>status = Present, count = 2\<rparr>"]
    transition_table[of "\<lparr>status = Late, count = 1\<rparr>"]
  by simp

lemma handleCellTap_record:
  "map_of (records (fst (handleCellTap d c sess k now1 now2 s))) k =
     Some (switchMode
             (effectiveMode (mode s)
                (Some (case start_time sess of None \<Rightarrow> now1 | Some t \<Rightarrow> t)) now2
                (snd (getOrCreateRecord sess k)))
             (snd (getOrCreateRecord sess k)))"
  by (simp add: handleCellTap_def getOrCreateRecord_def Let_def AList.update_conv'
      split: option.splits prod.splits)

lemma effectiveMode_Present_Absent:
  "status r = Absent \<Longrightarrow>
   effectiveMode ModePresent (Some t) now r = (if now - t > 180000 then ModeLate else ModePresent)"
  by (simp add: effectiveMode_def elapsedSeconds_def TIMER_MINUTES_def field_simps)

lemma effectiveMode_unforced:
  "status r \<noteq> Absent \<or> m \<noteq> ModePresent \<Longrightarrow> effectiveMode m st now r = m"
  by (auto simp: effectiveMode_def split: option.splits)

text \<open>
  C6. A tap in mode present on a record that is absent (created by this tap or found
  absent) stores \<open>{late, 1}\<close> when more than 180 seconds have passed since the
  session's start time (the one just set, on the first tap), and \<open>{present, 1}\<close>
  otherwise; 181 s after the start it is \<open>{late, 1}\<close>, 179 s after it
  \<open>{present, 1}\<close>. When the record is present or late already, or the mode is late or
  undo, nothing is forced: the selected mode is the one applied.
\<close>

theorem grace_period:
  "(mode s = ModePresent \<and> status (snd (getOrCreateRecord sess k)) = Absent \<longrightarrow>
      map_of (records (fst (handleCellTap d c sess k now1 now2 s))) k =
        Some (if now2 - (case start_time sess of None \<Rightarrow> now1 | Some t \<Rightarrow> t) > 180 * 1000
              then \<lparr>status = Late, count = 1\<rparr> else \<lparr>status = Present, count = 1\<rparr>)) \<and>
   (mode s = ModePresent \<and> status (snd (getOrCreateRecord sess k)) = Absent \<and>
    start_time sess = Some T \<longrightarrow>
      map_of (records (fst (handleCellTap d c sess k now1 (T + 181 * 1000) s))) k =
        Some \<lparr>status = Late, count = 1\<rparr> \<and>
      map_of (records (fst (handleCellTap d c sess k now1 (T + 179 * 1000) s))) k =
        Some \<lparr>status = Present, count = 1\<rparr>) \<and>
   (mode s \<noteq> ModePresent \<or> status (snd (getOrCreateRecord sess k)) \<noteq> Absent \<longrightarrow>
      effectiveMode (mode s) (start_time (fst (handleCellTap d c sess k now1 now2 s))) now2
        (snd (getOrCreateRecord sess k)) = mode s \<and>
      map_of (records (fst (handleCellTap d c sess k now1 now2 s))) k =
        Some (switchMode (mode s) (snd (getOrCreateRecord sess k))))"
  by (auto simp: handleCellTap_record effectiveMode_Present_Absent effectiveMode_unforced)

theorem grace_period_witness:
  "mode (initialState :: unit app_state) = ModePresent \<and>
   status (snd (getOrCreateRecord ((todaySession ''2026-01-15'')\<lparr>start_time := Some 1000\<rparr>) ''7'')) = Absent \<and>
   start_time ((todaySession ''2026-01-15'')\<lparr>start_time := Some 1000\<rparr>) = Some 1000 \<and>
   map_of (records (fst (handleCellTap () course101H
       ((todaySession ''2026-01-15'')\<lparr>start_time := Some 1000\<rparr>) ''7'' 182000 (1000 + 181 * 1000)
       initialState))) ''7'' = Some \<lparr>status = Late, count = 1\<rparr> \<and>
   map_of (records (fst (handleCellTap () course101H
       ((todaySession ''2026-01-15'')\<lparr>start_time := Some 1000\<rparr>) ''7'' 182000 (1000 + 179 * 1000)
       initialState))) ''7'' = Some \<lparr>status = Present, count = 1\<rparr> \<and>
   mode ((initialState :: unit app_state)\<lparr>mode := ModeLate\<rparr>) \<noteq> ModePresent \<and>
   map_of (records (fst (handleCellTap () course101H
       ((todaySession ''2026-01-15'')\<lparr>start_time := Some 1000\<rparr>) ''7'' 182000 182000
       (initialState\<lparr>mode := ModeLate\<rparr>)))) ''7'' = Some \<lparr>status = Late, count = 1\<rparr>"
proof -
  let ?S = "(todaySession ''2026-01-15'')\<lparr>start_time := Some 1000\<rparr>"
  have a: "mode (initialState :: unit app_state) = ModePresent"
    by (simp add: initialState_def)
  have b: "status (snd (getOrCreateRecord ?S ''7'')) = Absent"
    by (simp add: todaySession_def getOrCreateRecord_def)
  have c: "start_time ?S = Some 1000" by simp
  have d: "mode ((initialState :: unit app_state)\<lparr>mode := ModeLate\<rparr>) \<noteq> ModePresent" by simp
  have e: "switchMode ModeLate (snd (getOrCreateRecord ?S ''7'')) = \<lparr>status = Late, count = 1\<rparr>"
    by (simp add: todaySession_def getOrCreateRecord_def)
  from a b c
    grace_period[where s = "initialState :: unit app_state" and sess = ?S and k = "''7''"
      and T = 1000 and d = "()" and c = course101H and ?now1.0 = 182000]
  have f: "map_of (records (fst (handleCellTap () course101H ?S ''7'' 182000 (1000 + 181 * 1000)
       initialState))) ''7'' = Some \<lparr>status = Late, count = 1\<rparr> \<and>
   map_of (records (fst (handleCellTap () course101H ?S ''7'' 182000 (1000 + 179 * 1000)
       initialState))) ''7'' = Some \<lparr>status = Present, count = 1\<rparr>"
    by blast
  from d e
    grace_period[where s = "(initialState :: unit app_state)\<lparr>mode := ModeLate\<rparr>" and sess = ?S
      and k = "''7''" and d = "()" and c = course101H and ?now1.0 = 182000 and ?now2.0 = 182000]
  have g: "map_of (records (fst (handleCellTap () course101H ?S ''7'' 182000 182000
       (initialState\<lparr>mode := ModeLate\<rparr>)))) ''7'' = Some \<lparr>status = Late, count = 1\<rparr>"
    by simp
  from a b c d f g show ?thesis by blast
qed

section \<open>Saving a dataset: proofs\<close>

lemma cleanEmptySessions_idem: "cleanEmptySessions (cleanEmptySessions ss) = cleanEmptySessions ss"
  by (simp add: cleanEmptySessions_def)

text \<open>
  C7. On sessions whose counts are not negative (the record type of the data model),
  the filter of \<^verbatim>\<open>saveCourseData\<close> removes exactly the sessions in which every record
  is \<open>{absent, 0}\<close>, a session without records among them, keeps the others in their
  order, and filtering a second time changes nothing.
\<close>

theorem normalization:
  assumes "\<forall>sess \<in> set ss. \<forall>r \<in> snd ` set (records sess). 0 \<le> count r"
  shows "cleanEmptySessions ss = filter (\<lambda>sess. \<not> every_record_absent_zero sess) ss \<and>
         (\<forall>sess \<in> set ss. records sess = [] \<longrightarrow> sess \<notin> set (cleanEmptySessions ss)) \<and>
         cleanEmptySessions (cleanEmptySessions ss) = cleanEmptySessions ss"
proof -
  have "list_ex (\<lambda>r. status r \<noteq> Absent \<or> count r > 0) (map snd (records sess))
        = (\<not> every_record_absent_zero sess)" if "sess \<in> set ss" for sess
  proof -
    have "\<forall>r \<in> snd ` set (records sess). 0 \<le> count r" using assms that by blast
    then have "\<forall>r \<in> snd ` set (records sess).
        (status r \<noteq> Absent \<or> count r > 0) = (\<not> (status r = Absent \<and> count r = 0))"
      by auto
    then show ?thesis
      unfolding every_record_absent_zero_def list_ex_iff list_all_iff set_map by blast
  qed
  then have 1: "cleanEmptySessions ss = filter (\<lambda>sess. \<not> every_record_absent_zero sess) ss"
    unfolding cleanEmptySessions_def by (intro filter_cong) auto
  have 2: "\<forall>sess \<in> set ss. records sess = [] \<longrightarrow> sess \<notin> set (cleanEmptySessions ss)"
    by (simp add: cleanEmptySessions_def)
  show ?thesis using 1 2 cleanEmptySessions_idem[of ss] by blast
qed

theorem normalization_witness:
  "list_all (\<lambda>sess. list_all (\<lambda>r. 0 \<le> count r) (map snd (records sess)))
     [(todaySession ''2026-01-13'')\<lparr>records := [(''7'', \<lparr>status = Absent, count = 0\<rparr>)]\<rparr>,
      todaySession ''2026-01-14'',
      (todaySession ''2026-01-15'')\<lparr>records := [(''7'', \<lparr>status = Absent, count = 0\<rparr>),
                                              (''8'', \<lparr>status = Late, count = 1\<rparr>)]\<rparr>] \<and>
   cleanEmptySessions
     [(todaySession ''2026-01-13'')\<lparr>records := [(''7'', \<lparr>status = Absent, count = 0\<rparr>)]\<rparr>,
      todaySession ''2026-01-14'',
      (todaySession ''2026-01-15'')\<lparr>records := [(''7'', \<lparr>status = Absent, count = 0\<rparr>),
                                              (''8'', \<lparr>status = Late, count = 1\<rparr>)]\<rparr>]
     = [(todaySession ''2026-01-15'')\<lparr>records := [(''7'', \<lparr>status = Absent, count = 0\<rparr>),
                                                (''8'', \<lparr>status = Late, count = 1\<rparr>)]\<rparr>]"
proof -
  let ?ss = "[(todaySession ''2026-01-13'')\<lparr>records := [(''7'', \<lparr>status = Absent, count = 0\<rparr>)]\<rparr>,
      todaySession ''2026-01-14'',
      (todaySession ''2026-01-15'')\<lparr>records := [(''7'', \<lparr>status = Absent, count = 0\<rparr>),
                                              (''8'', \<lparr>status = Late, count = 1\<rparr>)]\<rparr>]"
  have h: "\<forall>sess \<in> set ?ss. \<forall>r \<in> snd ` set (records sess). 0 \<le> count r"
    by (simp add: todaySession_def)
  have "filter (\<lambda>sess. \<not> every_record_absent_zero sess) ?ss
          = [(todaySession ''2026-01-15'')\<lparr>records := [(''7'', \<lparr>status = Absent, count = 0\<rparr>),
                                                     (''8'', \<lparr>status = Late, count = 1\<rparr>)]\<rparr>]"
    by (simp add: every_record_absent_zero_def todaySession_def)
  with h normalization[OF h] show ?thesis by (simp add: todaySession_def)
qed

lemma saveCourseData_upload:
  "save_upload (saveCourseData now refresh now' upload_ok state_dbx c data a) = Some req \<Longrightarrow>
   upload_token req = state_dbx \<and>
   sessions (upload_contents req) = cleanEmptySessions (sessions data) \<and>
   upload_contents req = save_data (saveCourseData now refresh now' upload_ok state_dbx c data a)"
  by (auto simp: saveCourseData_def Let_def split: prod.splits sum.splits)

text \<open>
  C10. Whenever \<^verbatim>\<open>saveCourseData\<close> gets as far as the upload, the dataset object it
  was given has had its sessions filtered, also when that upload then fails; the
  students, the only other field, are as they were.
\<close>

theorem saveCourseData_frame:
  "(save_upload (saveCourseData now refresh now' upload_ok state_dbx c data a) \<noteq> None \<longrightarrow>
      save_data (saveCourseData now refresh now' upload_ok state_dbx c data a)
        = data\<lparr>sessions := cleanEmptySessions (sessions data)\<rparr>) \<and>
   (save_outcome (saveCourseData now refresh now' upload_ok state_dbx c data a) = Inl UploadFailed \<longrightarrow>
      save_upload (saveCourseData now refresh now' upload_ok state_dbx c data a) \<noteq> None \<and>
      sessions (save_data (saveCourseData now refresh now' upload_ok state_dbx c data a))
        = cleanEmptySessions (sessions data)) \<and>
   students (save_data (saveCourseData now refresh now' upload_ok state_dbx c data a)) = students data"
  by (simp add: saveCourseData_def Let_def split: prod.splits sum.splits)

theorem saveCourseData_frame_witness:
  "save_outcome (saveCourseData 1000 None 1000 False ''tok'' course101H
      \<lparr>students = [\<lparr>student_id = ''7'', student_name = ''Ada''\<rparr>],
       sessions = [(todaySession ''2026-01-15'')\<lparr>records := [(''7'', \<lparr>status = Absent, count = 0\<rparr>)]\<rparr>]\<rparr>
      (storedToken ''tok'' None)) = Inl UploadFailed \<and>
   save_upload (saveCourseData 1000 None 1000 False ''tok'' course101H
      \<lparr>students = [\<lparr>student_id = ''7'', student_name = ''Ada''\<rparr>],
       sessions = [(todaySession ''2026-01-15'')\<lparr>records := [(''7'', \<lparr>status = Absent, count = 0\<rparr>)]\<rparr>]\<rparr>
      (storedToken ''tok'' None)) \<noteq> None \<and>
   save_data (saveCourseData 1000 None 1000 False ''tok'' course101H
      \<lparr>students = [\<lparr>student_id = ''7'', student_name = ''Ada''\<rparr>],
       sessions = [(todaySession ''2026-01-15'')\<lparr>records := [(''7'', \<lparr>status = Absent, count = 0\<rparr>)]\<rparr>]\<rparr>
      (storedToken ''tok'' None))
     = \<lparr>students = [\<lparr>student_id = ''7'', student_name = ''Ada''\<rparr>], sessions = []\<rparr>"
proof -
  let ?data = "\<lparr>students = [\<lparr>student_id = ''7'', student_name = ''Ada''\<rparr>],
       sessions = [(todaySession ''2026-01-15'')\<lparr>records := [(''7'', \<lparr>status = Absent, count = 0\<rparr>)]\<rparr>]\<rparr>"
  have o: "save_outcome (saveCourseData 1000 None 1000 False ''tok'' course101H ?data
      (storedToken ''tok'' None)) = Inl UploadFailed"
    by (simp add: saveCourseData_def ensureFreshToken_def isAuthenticated_def truthy_def
        storedToken_def Let_def)
  have c: "?data\<lparr>sessions := cleanEmptySessions (sessions ?data)\<rparr>
      = \<lparr>students = [\<lparr>student_id = ''7'', student_name = ''Ada''\<rparr>], sessions = []\<rparr>"
    by (simp add: cleanEmptySessions_def todaySession_def)
  from o c saveCourseData_frame[of 1000 None 1000 False "''tok''" course101H ?data
      "storedToken ''tok'' None"]
  show ?thesis by simp
qed

section \<open>Token lifecycle: proofs\<close>

text \<open>
  C3 (the boundary as the claim has it). With a token stored and
  \<open>now = expires_at - 300000\<close>, \<^verbatim>\<open>isAuthenticated()\<close> returns true, although
  \<open>now < expires_at - 300000\<close> does not hold.
\<close>

theorem isAuthenticated_boundary_counterexample:
  "isAuthenticated (1000000 - 300000) (storedToken ''tok'' (Some 1000000)) = True \<and>
   \<not> ((1000000 - 300000 :: int) < 1000000 - 300000)"
  by (simp add: isAuthenticated_def truthy_def storedToken_def)

text \<open>
  C3, amended. With an expiry stored, \<^verbatim>\<open>isAuthenticated()\<close> returns true iff a
  (non-empty) token is stored and \<open>now \<le> expires_at - 300000\<close>: with a token it is
  true at \<open>expires_at - 300000\<close> and at \<open>expires_at - 300001\<close>, and false at
  \<open>expires_at - 299999\<close>.
\<close>

theorem isAuthenticated_buffer:
  assumes "dbx_token_expiry a = Some expires_at"
  shows "isAuthenticated now a = (truthy (dbx_access_token a) \<and> now \<le> expires_at - 300000) \<and>
         (truthy (dbx_access_token a) \<longrightarrow>
            isAuthenticated (expires_at - 300000) a = True \<and>
            isAuthenticated (expires_at - 300001) a = True \<and>
            isAuthenticated (expires_at - 299999) a = False)"
  using assms by (auto simp: isAuthenticated_def)

theorem isAuthenticated_buffer_witness:
  "dbx_token_expiry (storedToken ''tok'' (Some 1000000)) = Some 1000000 \<and>
   truthy (dbx_access_token (storedToken ''tok'' (Some 1000000))) \<and>
   isAuthenticated 700000 (storedToken ''tok'' (Some 1000000)) = True \<and>
   isAuthenticated 699999 (storedToken ''tok'' (Some 1000000)) = True \<and>
   isAuthenticated 700001 (storedToken ''tok'' (Some 1000000)) = False"
proof -
  have e: "dbx_token_expiry (storedToken ''tok'' (Some 1000000)) = Some 1000000"
    by (simp add: storedToken_def)
  have t: "truthy (dbx_access_token (storedToken ''tok'' (Some 1000000)))"
    by (simp add: storedToken_def truthy_def)
  from isAuthenticated_buffer[OF e, of 0] e t show ?thesis by simp
qed

text \<open>
  C9. With a (non-empty) access token stored and no expiry stored,
  \<^verbatim>\<open>isAuthenticated()\<close> returns true at every time.
\<close>

theorem isAuthenticated_no_expiry:
  assumes "dbx_access_token a = Some tok" and "tok \<noteq> []" and "dbx_token_expiry a = None"
  shows "isAuthenticated now a = True"
  using assms by (simp add: isAuthenticated_def truthy_def)

theorem isAuthenticated_no_expiry_witness:
  "dbx_access_token (storedToken ''tok'' None) = Some ''tok'' \<and> ''tok'' \<noteq> [] \<and>
   dbx_token_expiry (storedToken ''tok'' None) = None \<and>
   isAuthenticated 99999999999999 (storedToken ''tok'' None) = True"
proof -
  have 1: "dbx_access_token (storedToken ''tok'' None) = Some ''tok''" by (simp add: storedToken_def)
  have 2: "''tok'' \<noteq> []" by simp
  have 3: "dbx_token_expiry (storedToken ''tok'' None) = None" by (simp add: storedToken_def)
  from isAuthenticated_no_expiry[OF 1 2 3] 1 2 3 show ?thesis by blast
qed

text \<open>
  C5 (removal on failure as the claim has it). When the token request fails, the
  error leaves \<^verbatim>\<open>_handleCallback\<close> before \<^verbatim>\<open>removeItem\<close> is reached: one request
  has been made and the verifier is still stored.
\<close>

theorem verifier_kept_counterexample:
  "handleCallback ''code'' None 5000 (awaitingCallback ''verifier'')
     = (Inl TokenRequestFailed,
        (awaitingCallback ''verifier'')\<lparr>requests := [TokenFromCode ''code'' ''verifier'']\<rparr>) \<and>
   dbx_code_verifier (snd (handleCallback ''code'' None 5000 (awaitingCallback ''verifier'')))
     = Some ''verifier''"
  by (simp add: handleCallback_def awaitingCallback_def truthy_def)

text \<open>
  C5, amended. With a verifier stored, a successful exchange removes it and a failed
  token request leaves it in the store; without a verifier the exchange fails with
  \<open>MissingVerifier\<close>, the store is untouched and no token request has been made.
\<close>

theorem handleCallback_verifier:
  "(truthy (dbx_code_verifier a) \<longrightarrow>
      fst (handleCallback code (Some result) now a) = Inr () \<and>
      dbx_code_verifier (snd (handleCallback code (Some result) now a)) = None \<and>
      fst (handleCallback code None now a) = Inl TokenRequestFailed \<and>
      dbx_code_verifier (snd (handleCallback code None now a)) = dbx_code_verifier a) \<and>
   (\<not> truthy (dbx_code_verifier a) \<longrightarrow>
      handleCallback code exchange now a = (Inl MissingVerifier, a) \<and>
      requests (snd (handleCallback code exchange now a)) = requests a)"
  by (simp add: handleCallback_def Let_def)

theorem handleCallback_verifier_witness:
  "truthy (dbx_code_verifier (awaitingCallback ''verifier'')) \<and>
   dbx_code_verifier (snd (handleCallback ''code''
      (Some \<lparr>access_token = ''tok'', refresh_token = Some ''ref'', expires_in = None\<rparr>) 5000
      (awaitingCallback ''verifier''))) = None \<and>
   dbx_code_verifier (snd (handleCallback ''code'' None 5000 (awaitingCallback ''verifier'')))
     = Some ''verifier'' \<and>
   \<not> truthy (dbx_code_verifier (storedToken ''tok'' None)) \<and>
   handleCallback ''code'' None 5000 (storedToken ''tok'' None)
     = (Inl MissingVerifier, storedToken ''tok'' None)"
proof -
  have 1: "truthy (dbx_code_verifier (awaitingCallback ''verifier''))"
    by (simp add: awaitingCallback_def truthy_def)
  have 2: "\<not> truthy (dbx_code_verifier (storedToken ''tok'' None))"
    by (simp add: storedToken_def truthy_def)
  have 3: "dbx_code_verifier (awaitingCallback ''verifier'') = Some ''verifier''"
    by (simp add: awaitingCallback_def)
  from 1 2 3
    handleCallback_verifier[of "awaitingCallback ''verifier''" "''code''"
      "\<lparr>access_token = ''tok'', refresh_token = Some ''ref'', expires_in = None\<rparr>" 5000]
    handleCallback_verifier[of "storedToken ''tok'' None" "''code''" _ 5000 None]
  show ?thesis by simp
qed

text \<open>
  C8 (every state of the store, as the claim has it). With an expired token and no
  refresh token, \<^verbatim>\<open>ensureFreshToken()\<close> returns normally without doing anything,
  and the stored token is past its expiry.
\<close>

theorem ensureFreshToken_stale_counterexample:
  "ensureFreshToken 2000000 None 2000000 (storedToken ''tok'' (Some 1000000))
     = (Inr (), storedToken ''tok'' (Some 1000000)) \<and>
   \<not> ((2000000 :: int) < 1000000 - 300000) \<and>
   \<not> isAuthenticated 2000000 (storedToken ''tok'' (Some 1000000))"
  by (simp add: ensureFreshToken_def isAuthenticated_def hasRefreshToken_def truthy_def storedToken_def)

text \<open>
  C8, amended. When \<^verbatim>\<open>ensureFreshToken()\<close> returns normally on a store whose token
  was valid already or that holds a refresh token (the provider answering a refresh
  with a non-empty token), the stored token is valid in the sense of
  \<^verbatim>\<open>isAuthenticated()\<close> at that moment; after a refresh it is the new token, with
  the expiry four hours ahead.
\<close>

theorem ensureFreshToken_fresh:
  assumes "fst (ensureFreshToken now refresh now' a) = Inr ()"
    and "isAuthenticated now a \<or> hasRefreshToken a"
    and "\<forall>tok. refresh = Some tok \<longrightarrow> tok \<noteq> []"
  shows "isAuthenticated (if isAuthenticated now a then now else now')
           (snd (ensureFreshToken now refresh now' a)) \<and>
         (\<not> isAuthenticated now a \<longrightarrow>
            dbx_access_token (snd (ensureFreshToken now refresh now' a)) = refresh \<and>
            dbx_token_expiry (snd (ensureFreshToken now refresh now' a)) = Some (now' + 14400 * 1000) \<and>
            now' < now' + 14400 * 1000 - 300000)"
  using assms
  by (auto simp: ensureFreshToken_def refreshToken_def isAuthenticated_def truthy_def Let_def
      split: option.splits if_splits)

theorem ensureFreshToken_fresh_witness:
  "fst (ensureFreshToken 2000000 (Some ''new'') 2000500
         ((storedToken ''old'' (Some 1000000))\<lparr>dbx_refresh_token := Some ''ref''\<rparr>)) = Inr () \<and>
   hasRefreshToken ((storedToken ''old'' (Some 1000000))\<lparr>dbx_refresh_token := Some ''ref''\<rparr>) \<and>
   \<not> isAuthenticated 2000000 ((storedToken ''old'' (Some 1000000))\<lparr>dbx_refresh_token := Some ''ref''\<rparr>) \<and>
   isAuthenticated 2000500
     (snd (ensureFreshToken 2000000 (Some ''new'') 2000500
        ((storedToken ''old'' (Some 1000000))\<lparr>dbx_refresh_token := Some ''ref''\<rparr>))) \<and>
   dbx_access_token
     (snd (ensureFreshToken 2000000 (Some ''new'') 2000500
        ((storedToken ''old'' (Some 1000000))\<lparr>dbx_refresh_token := Some ''ref''\<rparr>))) = Some ''new''"
proof -
  let ?a = "(storedToken ''old'' (Some 1000000))\<lparr>dbx_refresh_token := Some ''ref''\<rparr>"
  have n: "\<not> isAuthenticated 2000000 ?a"
    by (simp add: isAuthenticated_def storedToken_def)
  have r: "hasRefreshToken ?a"
    by (simp add: hasRefreshToken_def truthy_def)
  have 1: "fst (ensureFreshToken 2000000 (Some ''new'') 2000500 ?a) = Inr ()"
    using n r by (simp add: ensureFreshToken_def refreshToken_def Let_def)
  have 2: "isAuthenticated 2000000 ?a \<or> hasRefreshToken ?a" using r by simp
  have 3: "\<forall>tok. Some ''new'' = Some tok \<longrightarrow> tok \<noteq> []" by simp
  from ensureFreshToken_fresh[OF 1 2 3] n r 1 show ?thesis by simp
qed

text \<open>
  The token an upload is sent with is the one of the client in \<^verbatim>\<open>state.dbx\<close>.
  \<^verbatim>\<open>_refreshToken\<close> stores the new token and builds a new client in \<^verbatim>\<open>this.dbx\<close>;
  \<^verbatim>\<open>state.dbx\<close> still is the client \<^verbatim>\<open>initApp\<close> took from \<^verbatim>\<open>getClient()\<close>. Here the
  page was opened with the token \<open>old\<close>, which has expired by the time of the save.
\<close>

lemma upload_after_refresh:
  "map_option upload_token
     (save_upload (saveCourseData 2000000 (Some ''new'') 2000500 True ''old'' course101H
        \<lparr>students = [], sessions = []\<rparr>
        ((storedToken ''old'' (Some 1000000))\<lparr>dbx_refresh_token := Some ''ref''\<rparr>))) = Some ''old'' \<and>
   dbx_access_token
     (save_auth (saveCourseData 2000000 (Some ''new'') 2000500 True ''old'' course101H
        \<lparr>students = [], sessions = []\<rparr>
        ((storedToken ''old'' (Some 1000000))\<lparr>dbx_refresh_token := Some ''ref''\<rparr>))) = Some ''new'' \<and>
   dbx
     (save_auth (saveCourseData 2000000 (Some ''new'') 2000500 True ''old'' course101H
        \<lparr>students = [], sessions = []\<rparr>
        ((storedToken ''old'' (Some 1000000))\<lparr>dbx_refresh_token := Some ''ref''\<rparr>))) = Some ''new''"
  by (simp add: saveCourseData_def ensureFreshToken_def refreshToken_def isAuthenticated_def
      hasRefreshToken_def truthy_def storedToken_def cleanEmptySessions_def Let_def)

section \<open>The debounced save: proofs\<close>




















lemmas step_eval =
  initialState_def scheduleSave_def setTimeout_def clearTimeout_def startSave_def
  saveReturned_def SAVE_DEBOUNCE_MS_def

lemma run_Cons: "step e s = Some s' \<Longrightarrow> run es s' = r \<Longrightarrow> run (e # es) s = r"
  by simp






text \<open>
  The same burst when the first upload fails: the retry timer is armed for two seconds
  later, its callback calls \<^verbatim>\<open>saveCourseData\<close> without a generation test, and that
  call is the one that succeeds.
\<close>

lemma retry_run:
  "run [ScheduleSave course101H (1::nat), Tick 100, ScheduleSave course101H 2,
      Tick 500, TimerFires 2, SaveReturns 2 False, Tick 2000, TimerFires 3, SaveReturns 3 True]
     initialState =
   Some \<lparr>mode = ModePresent, saveTimeout = Some 2, saveGeneration = 2, clock = 2600,
      nextHandle = 4, timers = [], running = [],
      started = [\<lparr>call_generation = 2, call_is_retry = False, call_course = course101H,
                 call_data = 2\<rparr>,
               \<lparr>call_generation = 2, call_is_retry = True, call_course = course101H,
                 call_data = 2\<rparr>],
      saved = [\<lparr>call_generation = 2, call_is_retry = True, call_course = course101H,
                 call_data = 2\<rparr>]\<rparr>"
proof -
  let ?call = "\<lparr>call_generation = 2, call_is_retry = False, call_course = course101H,
                 call_data = 2::nat\<rparr>"
  let ?retry = "\<lparr>call_generation = 2, call_is_retry = True, call_course = course101H,
                 call_data = 2::nat\<rparr>"
  let ?s1 = "\<lparr>mode = ModePresent, saveTimeout = Some 1, saveGeneration = 1, clock = 0,
      nextHandle = 2, timers = [(1, 500, SaveCb 1 course101H (1::nat))], running = [],
      started = [], saved = []\<rparr>"
  let ?s2 = "\<lparr>mode = ModePresent, saveTimeout = Some 1, saveGeneration = 1, clock = 100,
      nextHandle = 2, timers = [(1, 500, SaveCb 1 course101H (1::nat))], running = [],
      started = [], saved = []\<rparr>"
  let ?s3 = "\<lparr>mode = ModePresent, saveTimeout = Some 2, saveGeneration = 2, clock = 100,
      nextHandle = 3, timers = [(2, 600, SaveCb 2 course101H (2::nat))], running = [],
      started = [], saved = []\<rparr>"
  let ?s4 = "\<lparr>mode = ModePresent, saveTimeout = Some 2, saveGeneration = 2, clock = 600,
      nextHandle = 3, timers = [(2, 600, SaveCb 2 course101H (2::nat))], running = [],
      started = [], saved = []\<rparr>"
  let ?s5 = "\<lparr>mode = ModePresent, saveTimeout = Some 2, saveGeneration = 2, clock = 600,
      nextHandle = 3, timers = [], running = [(2, ?call)], started = [?call], saved = []\<rparr>"
  let ?s6 = "\<lparr>mode = ModePresent, saveTimeout = Some 2, saveGeneration = 2, clock = 600,
      nextHandle = 4, timers = [(3, 2600, RetryCb 2 course101H (2::nat))], running = [],
      started = [?call], saved = []\<rparr>"
  let ?s7 = "\<lparr>mode = ModePresent, saveTimeout = Some 2, saveGeneration = 2, clock = 2600,
      nextHandle = 4, timers = [(3, 2600, RetryCb 2 course101H (2::nat))], running = [],
      started = [?call], saved = []\<rparr>"
  let ?s8 = "\<lparr>mode = ModePresent, saveTimeout = Some 2, saveGeneration = 2, clock = 2600,
      nextHandle = 4, timers = [], running = [(3, ?retry)],
      started = [?call, ?retry], saved = []\<rparr>"
  let ?s9 = "\<lparr>mode = ModePresent, saveTimeout = Some 2, saveGeneration = 2, clock = 2600,
      nextHandle = 4, timers = [], running = [],
      started = [?call, ?retry], saved = [?retry]\<rparr>"
  have e1: "step (ScheduleSave course101H 1) initialState = Some ?s1"
    by (simp add: step_eval)
  have e2: "step (Tick 100) ?s1 = Some ?s2" by simp
  have e3: "step (ScheduleSave course101H 2) ?s2 = Some ?s3"
    by (simp add: step_eval)
  have e4: "step (Tick 500) ?s3 = Some ?s4" by simp
  have e5: "step (TimerFires 2) ?s4 = Some ?s5"
    by (simp add: step_eval)
  have e6: "step (SaveReturns 2 False) ?s5 = Some ?s6"
    by (simp add: step_eval)
  have e7: "step (Tick 2000) ?s6 = Some ?s7" by simp
  have e8: "step (TimerFires 3) ?s7 = Some ?s8"
    by (simp add: step_eval)
  have e9: "step (SaveReturns 3 True) ?s8 = Some ?s9"
    by (simp add: step_eval)
  have r9: "run [] ?s9 = Some ?s9" by simp
  show ?thesis
    by (rule run_Cons[OF e1 run_Cons[OF e2 run_Cons[OF e3 run_Cons[OF e4 run_Cons[OF e5
          run_Cons[OF e6 run_Cons[OF e7 run_Cons[OF e8 run_Cons[OF e9 r9]]]]]]]]])
qed

end
